theory Spec2Isabelle
  imports Complex_Main "HOL-Library.Sublist" "HOL-Library.Log_Nat" "HOL-Library.Multiset"
begin

section \<open>Data model of classify.py\<close>

text \<open>
  A prediction is the dictionary \<^verbatim>\<open>{'label': ..., 'score': ...}\<close> that the classifier
  returns. A Python \<^verbatim>\<open>str\<close> is represented by its UTF-8 encoding (one \<open>char\<close> per byte);
  species labels are ASCII. A score is a finite Python float, represented by the rational
  number it denotes exactly, so that \<open><\<close> on scores is the comparison Python makes.
\<close>

record prediction =
  label :: string
  score :: rat

datatype error = IndexError

text \<open>
  The float literals \<^verbatim>\<open>0.5\<close> and \<^verbatim>\<open>0.3\<close> (lines 18 and 19) denote the double nearest to
  the decimal: \<open>1/2\<close> exactly, and \<open>5404319552844595 / 2^54\<close>, just below \<open>3/10\<close>.
\<close>

definition LOW_CONFIDENCE_THRESHOLD :: rat where
  "LOW_CONFIDENCE_THRESHOLD = 1 / 2"

definition UNKNOWN_SOUND_THRESHOLD :: rat where
  "UNKNOWN_SOUND_THRESHOLD = 5404319552844595 / 18014398509481984"

definition RARE_SPECIES :: "string list" where
  "RARE_SPECIES =
     [''spotted owl'',
      ''california condor'',
      ''whooping crane'',
      ''ivory-billed woodpecker'']"

section \<open>Library functions the script calls\<close>


definition lower_char :: "char \<Rightarrow> char" where
  "lower_char c =
     (let n = (of_char c :: nat)
      in if 65 \<le> n \<and> n \<le> 90 then char_of (n + 32) else c)"

definition lower :: "string \<Rightarrow> string" where
  "lower s = map lower_char s"

text \<open>
  \<^verbatim>\<open>sorted(xs, key=k, reverse=r)\<close>: a stable sort on the keys. With \<^verbatim>\<open>reverse=True\<close>
  CPython reverses the list, sorts it stably in ascending order and reverses the result,
  so that elements with equal keys keep their original order. The keys determine the
  result of a stable sort, so \<open>sort_key\<close> returns the list that CPython's sort returns.
\<close>

definition sorted_py :: "('a \<Rightarrow> 'k::linorder) \<Rightarrow> bool \<Rightarrow> 'a list \<Rightarrow> 'a list" where
  "sorted_py key reverse xs =
     (if reverse then rev (sort_key key (rev xs)) else sort_key key xs)"

text \<open>\<^verbatim>\<open>xs[:n]\<close>: a negative bound counts from the end of the list.\<close>

definition slice_to :: "'a list \<Rightarrow> int \<Rightarrow> 'a list" where
  "slice_to xs n =
     (if 0 \<le> n then take (nat n) xs else take (length xs - nat (- n)) xs)"

text \<open>\<^verbatim>\<open>enumerate(xs, start)\<close>.\<close>

fun enumerate_from :: "int \<Rightarrow> 'a list \<Rightarrow> (int \<times> 'a) list" where
  "enumerate_from i [] = []"
| "enumerate_from i (x # xs) = (i, x) # enumerate_from (i + 1) xs"

section \<open>The ranker and the alert engine\<close>

text \<open>
  Standard output is the list of the strings handed to \<^verbatim>\<open>print\<close>, one entry for each
  call, in order.
\<close>

type_synonym stdout = "string list"

definition classify_audio ::
    "string \<Rightarrow> (string \<Rightarrow> prediction list) \<Rightarrow> stdout \<times> prediction list" where
  "classify_audio file_path classifier =
     (let out = [[CHR 0xD0, CHR 0x9A, CHR 0xD0, CHR 0xBB, CHR 0xD0, CHR 0xB0, CHR 0xD1,
                  CHR 0x81, CHR 0xD1, CHR 0x81, CHR 0xD0, CHR 0xB8, CHR 0xD1, CHR 0x84,
                  CHR 0xD0, CHR 0xB8, CHR 0xD1, CHR 0x86, CHR 0xD0, CHR 0xB8, CHR 0xD1,
                  CHR 0x80, CHR 0xD1, CHR 0x83, CHR 0xD1, CHR 0x8E] @ ''...''];
          preds = classifier file_path;
          preds_sorted = sorted_py score True preds
      in (out, preds_sorted))"

text \<open>The three alert strings of lines 71, 75 and 79.\<close>

definition RARE_SPECIES_ALERT :: string where
  "RARE_SPECIES_ALERT =
     [CHR 0xF0, CHR 0x9F, CHR 0xA6, CHR 0x89] @ '' RARE_SPECIES: '' @
     [CHR 0xD0, CHR 0x9E, CHR 0xD0, CHR 0xB1, CHR 0xD0, CHR 0xBD, CHR 0xD0, CHR 0xB0,
      CHR 0xD1, CHR 0x80, CHR 0xD1, CHR 0x83, CHR 0xD0, CHR 0xB6, CHR 0xD0, CHR 0xB5,
      CHR 0xD0, CHR 0xBD] @ '' '' @
     [CHR 0xD1, CHR 0x80, CHR 0xD0, CHR 0xB5, CHR 0xD0, CHR 0xB4, CHR 0xD0, CHR 0xBA,
      CHR 0xD0, CHR 0xB8, CHR 0xD0, CHR 0xB9] @ '' '' @
     [CHR 0xD0, CHR 0xB2, CHR 0xD0, CHR 0xB8, CHR 0xD0, CHR 0xB4] @ ''!''"

definition LOW_CONFIDENCE_ALERT :: string where
  "LOW_CONFIDENCE_ALERT =
     [CHR 0xE2, CHR 0x9A, CHR 0xA0, CHR 0xEF, CHR 0xB8, CHR 0x8F] @ '' LOW_CONFIDENCE: '' @
     [CHR 0xD0, CHR 0x9C, CHR 0xD0, CHR 0xBE, CHR 0xD0, CHR 0xB4, CHR 0xD0, CHR 0xB5,
      CHR 0xD0, CHR 0xBB, CHR 0xD1, CHR 0x8C] @ '' '' @
     [CHR 0xD0, CHR 0xBD, CHR 0xD0, CHR 0xB5] @ '' '' @
     [CHR 0xD1, CHR 0x83, CHR 0xD0, CHR 0xB2, CHR 0xD0, CHR 0xB5, CHR 0xD1, CHR 0x80,
      CHR 0xD0, CHR 0xB5, CHR 0xD0, CHR 0xBD, CHR 0xD0, CHR 0xB0] @ '' '' @
     [CHR 0xD0, CHR 0xB2] @ '' '' @
     [CHR 0xD1, CHR 0x80, CHR 0xD0, CHR 0xB5, CHR 0xD0, CHR 0xB7, CHR 0xD1, CHR 0x83,
      CHR 0xD0, CHR 0xBB, CHR 0xD1, CHR 0x8C, CHR 0xD1, CHR 0x82, CHR 0xD0, CHR 0xB0,
      CHR 0xD1, CHR 0x82, CHR 0xD0, CHR 0xB5]"

definition UNKNOWN_SOUND_ALERT :: string where
  "UNKNOWN_SOUND_ALERT =
     [CHR 0xE2, CHR 0x9D, CHR 0x93] @ '' UNKNOWN_SOUND: '' @
     [CHR 0xD0, CHR 0x92, CHR 0xD0, CHR 0xBE, CHR 0xD0, CHR 0xB7, CHR 0xD0, CHR 0xBC,
      CHR 0xD0, CHR 0xBE, CHR 0xD0, CHR 0xB6, CHR 0xD0, CHR 0xBD, CHR 0xD0, CHR 0xBE] @ '' '' @
     [CHR 0xD0, CHR 0xBD, CHR 0xD0, CHR 0xB5, CHR 0xD0, CHR 0xB8, CHR 0xD0, CHR 0xB7,
      CHR 0xD0, CHR 0xB2, CHR 0xD0, CHR 0xB5, CHR 0xD1, CHR 0x81, CHR 0xD1, CHR 0x82,
      CHR 0xD0, CHR 0xBD, CHR 0xD1, CHR 0x8B, CHR 0xD0, CHR 0xB9] @ '' '' @
     [CHR 0xD0, CHR 0xB2, CHR 0xD0, CHR 0xB8, CHR 0xD0, CHR 0xB4] @ '' '' @
     [CHR 0xD0, CHR 0xB8, CHR 0xD0, CHR 0xBB, CHR 0xD0, CHR 0xB8] @ '' '' @
     [CHR 0xD1, CHR 0x88, CHR 0xD1, CHR 0x83, CHR 0xD0, CHR 0xBC]"

definition check_alerts :: "string \<Rightarrow> rat \<Rightarrow> string list" where
  "check_alerts pred_label pred_score =
     (let alerts = [];
          alerts = (if lower pred_label \<in> set (map lower RARE_SPECIES)
                    then alerts @ [RARE_SPECIES_ALERT] else alerts);
          alerts = (if pred_score < LOW_CONFIDENCE_THRESHOLD
                    then alerts @ [LOW_CONFIDENCE_ALERT] else alerts);
          alerts = (if pred_score < UNKNOWN_SOUND_THRESHOLD
                    then alerts @ [UNKNOWN_SOUND_ALERT] else alerts)
      in alerts)"

section \<open>Formatting numbers\<close>

text \<open>\<^verbatim>\<open>str(n)\<close> for an integer, as the f-string fields \<^verbatim>\<open>{i}\<close> and \<^verbatim>\<open>{top_n}\<close> render it.\<close>

definition digit_char :: "nat \<Rightarrow> char" where
  "digit_char d = char_of (48 + d)"

fun str_nat :: "nat \<Rightarrow> string" where
  "str_nat n = (if n < 10 then [digit_char n] else str_nat (n div 10) @ [digit_char (n mod 10)])"

declare str_nat.simps [simp del]

definition str_int :: "int \<Rightarrow> string" where
  "str_int i = (if i < 0 then ''-'' @ str_nat (nat (- i)) else str_nat (nat i))"

text \<open>
  Double-precision arithmetic. \<open>pow2 e\<close> is \<open>2\<close> to the power \<open>e\<close>; \<open>floor_log2 x\<close> is
  the exponent of a positive \<open>x\<close>; \<open>round_half_even\<close> rounds to the nearest integer,
  a tie to the even one. \<open>round_double x\<close> is the double nearest to \<open>x\<close> (53 significant
  bits, the least exponent \<open>-1074\<close>, a tie to the even significand): the value IEEE 754
  gives an operation whose exact result is \<open>x\<close>, and \<open>None\<close> when that result is infinite.
\<close>

definition pow2 :: "int \<Rightarrow> rat" where
  "pow2 e = (if 0 \<le> e then 2 ^ nat e else 1 / 2 ^ nat (- e))"

definition round_half_even :: "rat \<Rightarrow> int" where
  "round_half_even x =
     (let f = \<lfloor>x\<rfloor>; d = x - of_int f
      in if d < 1 / 2 then f
         else if 1 / 2 < d then f + 1
         else if even f then f else f + 1)"

definition floor_log2 :: "rat \<Rightarrow> int" where
  "floor_log2 x =
     (let (a, b) = quotient_of x; e = bitlen a - bitlen b
      in if pow2 e \<le> x then e else e - 1)"

definition round_double :: "rat \<Rightarrow> rat option" where
  "round_double x =
     (if x = 0 then Some 0
      else let e = max (floor_log2 \<bar>x\<bar> - 52) (- 1074);
               m = round_half_even (\<bar>x\<bar> / pow2 e);
               y = of_int m * pow2 e
           in if 2 ^ 1024 \<le> y then None else Some (sgn x * y))"

text \<open>
  \<^verbatim>\<open>format(v, '.1f')\<close> for a finite double \<open>v\<close>: the decimal with one digit after the
  point nearest to \<open>v\<close>, a tie to the even digit; a minus sign for a negative \<open>v\<close>.
\<close>

definition format_f1 :: "rat \<Rightarrow> string" where
  "format_f1 v =
     (let n = nat (round_half_even (\<bar>v\<bar> * 10))
      in (if v < 0 then ''-'' else []) @ str_nat (n div 10) @ ''.'' @ [digit_char (n mod 10)])"

text \<open>
  \<^verbatim>\<open>format(x, '.1%')\<close>, the field \<^verbatim>\<open>{...:.1%}\<close> of lines 92 and 106: CPython multiplies the
  float by 100 in double precision, formats the product as \<^verbatim>\<open>'.1f'\<close> and appends the
  percent sign.
\<close>

definition format_pct1 :: "rat \<Rightarrow> string" where
  "format_pct1 x =
     (case round_double (x * 100) of
        None \<Rightarrow> (if x < 0 then ''-inf'' else ''inf'') @ ''%''
      | Some v \<Rightarrow> format_f1 v @ ''%'')"

section \<open>The report formatter\<close>

text \<open>The loop of lines 99 and 100, and the loop of lines 105 and 106.\<close>

fun print_alert_lines :: "stdout \<Rightarrow> string list \<Rightarrow> stdout" where
  "print_alert_lines out [] = out"
| "print_alert_lines out (alert # rest) = print_alert_lines (out @ [''  '' @ alert]) rest"

fun print_ranked_lines :: "stdout \<Rightarrow> (int \<times> prediction) list \<Rightarrow> stdout" where
  "print_ranked_lines out [] = out"
| "print_ranked_lines out ((i, pred) # rest) =
     print_ranked_lines
       (out @ [''  '' @ str_int i @ ''. '' @ label pred @ '' ('' @ format_pct1 (score pred) @ '')''])
       rest"

text \<open>
  \<open>print_results\<close> returns what it has printed and the exception it raised, if any.
  \<^verbatim>\<open>predictions[0]\<close> raises IndexError on the empty list, after the three lines of the
  banner are printed.
\<close>

definition print_results :: "prediction list \<Rightarrow> int \<Rightarrow> stdout \<times> error option" where
  "print_results predictions top_n =
     (let out = [[CHR 0x0A] @ replicate 50 (CHR ''='')];
          out = out @ [[CHR 0xD0, CHR 0xA0, CHR 0xD0, CHR 0x95, CHR 0xD0, CHR 0x97, CHR 0xD0,
                        CHR 0xA3, CHR 0xD0, CHR 0x9B, CHR 0xD0, CHR 0xAC, CHR 0xD0, CHR 0xA2,
                        CHR 0xD0, CHR 0x90, CHR 0xD0, CHR 0xA2, CHR 0xD0, CHR 0xAB] @ '' '' @
                       [CHR 0xD0, CHR 0x9A, CHR 0xD0, CHR 0x9B, CHR 0xD0, CHR 0x90, CHR 0xD0,
                        CHR 0xA1, CHR 0xD0, CHR 0xA1, CHR 0xD0, CHR 0x98, CHR 0xD0, CHR 0xA4,
                        CHR 0xD0, CHR 0x98, CHR 0xD0, CHR 0x9A, CHR 0xD0, CHR 0x90, CHR 0xD0,
                        CHR 0xA6, CHR 0xD0, CHR 0x98, CHR 0xD0, CHR 0x98]];
          out = out @ [replicate 50 (CHR ''='')]
      in case predictions of
           [] \<Rightarrow> (out, Some IndexError)
         | top1 # _ \<Rightarrow>
             (let out = out @ [[CHR 0x0A, CHR 0xF0, CHR 0x9F, CHR 0x90, CHR 0xA6] @ '' '' @
                               [CHR 0xD0, CHR 0x92, CHR 0xD0, CHR 0xB8, CHR 0xD0, CHR 0xB4] @
                               '': '' @ label top1];
                  out = out @ [[CHR 0xF0, CHR 0x9F, CHR 0x93, CHR 0x8A] @ '' '' @
                               [CHR 0xD0, CHR 0xA3, CHR 0xD0, CHR 0xB2, CHR 0xD0, CHR 0xB5,
                                CHR 0xD1, CHR 0x80, CHR 0xD0, CHR 0xB5, CHR 0xD0, CHR 0xBD,
                                CHR 0xD0, CHR 0xBD, CHR 0xD0, CHR 0xBE, CHR 0xD1, CHR 0x81,
                                CHR 0xD1, CHR 0x82, CHR 0xD1, CHR 0x8C] @
                               '': '' @ format_pct1 (score top1)];
                  alerts = check_alerts (label top1) (score top1);
                  out = (if alerts \<noteq> []
                         then print_alert_lines
                                (out @ [[CHR 0x0A] @ replicate 30 (CHR ''-'')] @
                                 [[CHR 0xD0, CHR 0x9E, CHR 0xD0, CHR 0x9F, CHR 0xD0, CHR 0x9E,
                                   CHR 0xD0, CHR 0x92, CHR 0xD0, CHR 0x95, CHR 0xD0, CHR 0xA9,
                                   CHR 0xD0, CHR 0x95, CHR 0xD0, CHR 0x9D, CHR 0xD0, CHR 0x98,
                                   CHR 0xD0, CHR 0xAF] @ '':''])
                                alerts
                         else out);
                  out = out @ [[CHR 0x0A] @ replicate 30 (CHR ''-'')];
                  out = out @ [[CHR 0xD0, CHR 0xA2, CHR 0xD0, CHR 0xBE, CHR 0xD0, CHR 0xBF] @
                               ''-'' @ str_int top_n @ '' '' @
                               [CHR 0xD0, CHR 0xBF, CHR 0xD1, CHR 0x80, CHR 0xD0, CHR 0xB5,
                                CHR 0xD0, CHR 0xB4, CHR 0xD1, CHR 0x81, CHR 0xD0, CHR 0xBA,
                                CHR 0xD0, CHR 0xB0, CHR 0xD0, CHR 0xB7, CHR 0xD0, CHR 0xB0,
                                CHR 0xD0, CHR 0xBD, CHR 0xD0, CHR 0xB8, CHR 0xD1, CHR 0x8F] @
                               '':''];
                  out = print_ranked_lines out (enumerate_from 1 (slice_to predictions top_n));
                  out = out @ [replicate 50 (CHR ''='')]
              in (out, None)))"

text \<open>
  Lines 149 to 152 of \<open>main\<close>: the predictions of \<open>classify_audio\<close> go to \<open>print_results\<close>
  with the default \<^verbatim>\<open>top_n=3\<close>; no check stands between the two calls.
\<close>

definition main_pipeline :: "(string \<Rightarrow> prediction list) \<Rightarrow> string \<Rightarrow> stdout \<times> error option" where
  "main_pipeline classifier audio_path =
     (let (out, predictions) = classify_audio audio_path classifier;
          (out', err) = print_results predictions 3
      in (out @ out', err))"

text \<open>
  The number of \<^verbatim>\<open>print\<close> calls of \<open>print_results\<close> before the loop of line 105: the
  three of the banner, the species and the confidence line, the alert block when there is
  an alert (its rule, its title and one line for each alert), and the rule and the title of
  the ranking.
\<close>

definition lines_before_ranking :: "prediction \<Rightarrow> nat" where
  "lines_before_ranking top1 =
     (let alerts = check_alerts (label top1) (score top1)
      in 7 + (if alerts = [] then 0 else 2 + length alerts))"

text \<open>A classifier that returns no prediction at all.\<close>

definition silent_classifier :: "string \<Rightarrow> prediction list" where
  "silent_classifier file_path = []"

section \<open>The ranker: length, order and stability\<close>

lemma sorted_py_length: "length (sorted_py key r xs) = length xs"
  by (simp add: sorted_py_def)

lemma sorted_py_mset: "mset (sorted_py key r xs) = mset xs"
  by (simp add: sorted_py_def)

lemma sorted_py_descending: "sorted_wrt (\<lambda>a b. key b \<le> key a) (sorted_py key True xs)"
proof -
  have "sorted (map key (sort_key key (rev xs)))"
    by simp
  then have "sorted_wrt (\<lambda>a b. key a \<le> key b) (sort_key key (rev xs))"
    by (simp add: sorted_map)
  then show ?thesis
    by (simp add: sorted_py_def sorted_wrt_rev)
qed

lemma sorted_py_stable:
  "filter (\<lambda>x. key x = k) (sorted_py key r xs) = filter (\<lambda>x. key x = k) xs"
proof (cases r)
  case True
  have "filter (\<lambda>x. key x = k) (sort_key key (rev xs)) = filter (\<lambda>x. key x = k) (rev xs)"
    by (rule sort_key_stable)
  then have "rev (filter (\<lambda>x. key x = k) (sort_key key (rev xs))) = filter (\<lambda>x. key x = k) xs"
    by (simp add: rev_filter)
  with True show ?thesis
    by (simp add: sorted_py_def rev_filter)
next
  case False
  then show ?thesis
    by (simp add: sorted_py_def sort_key_stable)
qed

text \<open>
  C2. The ranked list of \<open>classify_audio\<close> has the length of the classifier's output (it is
  a rearrangement of it), its scores never increase from one element to the next, and the
  predictions of any one score \<open>k\<close> stand in the order they had in the input. This holds
  for every input list, the non-empty ones in particular.
\<close>

theorem classify_audio_ranks_stably:
  "length (snd (classify_audio file_path classifier)) = length (classifier file_path)
   \<and> mset (snd (classify_audio file_path classifier)) = mset (classifier file_path)
   \<and> sorted_wrt (\<lambda>p q. score q \<le> score p) (snd (classify_audio file_path classifier))
   \<and> filter (\<lambda>p. score p = k) (snd (classify_audio file_path classifier))
       = filter (\<lambda>p. score p = k) (classifier file_path)"
  by (simp add: classify_audio_def sorted_py_length sorted_py_mset sorted_py_descending
      sorted_py_stable)

section \<open>The alert engine\<close>

lemma lower_registry:
  "lower ` set RARE_SPECIES =
     {''spotted owl'', ''california condor'', ''whooping crane'', ''ivory-billed woodpecker''}"
  by (simp add: RARE_SPECIES_def lower_def lower_char_def)

lemma lower_examples:
  "lower ''Spotted Owl'' = ''spotted owl''"
  "lower ''Spotted Owl Juvenile'' = ''spotted owl juvenile''"
  "lower ''Unknown Noise'' = ''unknown noise''"
  "lower ''Whooping Crane'' = ''whooping crane''"
  "lower ''American Robin'' = ''american robin''"
  by code_simp+


lemma alerts_differ:
  "RARE_SPECIES_ALERT \<noteq> LOW_CONFIDENCE_ALERT"
  "RARE_SPECIES_ALERT \<noteq> UNKNOWN_SOUND_ALERT"
  "LOW_CONFIDENCE_ALERT \<noteq> UNKNOWN_SOUND_ALERT"
  by (simp_all add: RARE_SPECIES_ALERT_def LOW_CONFIDENCE_ALERT_def UNKNOWN_SOUND_ALERT_def)

lemma check_alerts_eq:
  "check_alerts l s =
     (if lower l \<in> set (map lower RARE_SPECIES) then [RARE_SPECIES_ALERT] else []) @
     (if s < LOW_CONFIDENCE_THRESHOLD then [LOW_CONFIDENCE_ALERT] else []) @
     (if s < UNKNOWN_SOUND_THRESHOLD then [UNKNOWN_SOUND_ALERT] else [])"
  by (simp add: check_alerts_def)



text \<open>
  C4. The low-confidence alert is among the alerts exactly when the score is strictly
  below \<open>0.5\<close>: the score \<open>0.5\<close> itself does not fire it, and the float \<^verbatim>\<open>0.4999\<close> (the
  double nearest to \<open>4999/10000\<close>) does.
\<close>

theorem low_confidence_strict:
  "(LOW_CONFIDENCE_ALERT \<in> set (check_alerts l s) \<longleftrightarrow> s < 1 / 2)
   \<and> LOW_CONFIDENCE_ALERT \<notin> set (check_alerts l (1 / 2))
   \<and> round_double (4999 / 10000) = Some (2251349453722511 / 4503599627370496)
   \<and> LOW_CONFIDENCE_ALERT \<in> set (check_alerts l (2251349453722511 / 4503599627370496))"
proof -
  have "round_double (4999 / 10000) = Some (2251349453722511 / 4503599627370496)"
    by code_simp
  then show ?thesis
    using alerts_differ by (simp add: check_alerts_eq LOW_CONFIDENCE_THRESHOLD_def)
qed

text \<open>
  C5. The unknown-sound alert is among the alerts exactly when the score is strictly below
  the float \<^verbatim>\<open>0.3\<close>, which is the double nearest to \<open>3/10\<close>; a score equal to that float
  does not fire it.
\<close>

theorem unknown_sound_strict:
  "(UNKNOWN_SOUND_ALERT \<in> set (check_alerts l s) \<longleftrightarrow> s < UNKNOWN_SOUND_THRESHOLD)
   \<and> round_double (3 / 10) = Some UNKNOWN_SOUND_THRESHOLD
   \<and> UNKNOWN_SOUND_ALERT \<notin> set (check_alerts l UNKNOWN_SOUND_THRESHOLD)"
proof -
  have "round_double (3 / 10) = Some UNKNOWN_SOUND_THRESHOLD"
    by code_simp
  then show ?thesis
    using alerts_differ by (simp add: check_alerts_eq)
qed

text \<open>
  C6. Whenever the unknown-sound alert fires for a score, the low-confidence alert fires
  for it too. This holds for every score, those of \<open>[0, 1]\<close> in particular.
\<close>

theorem unknown_sound_implies_low_confidence:
  "UNKNOWN_SOUND_ALERT \<in> set (check_alerts l s) \<Longrightarrow>
   LOW_CONFIDENCE_ALERT \<in> set (check_alerts l s)"
  using alerts_differ
  by (simp add: check_alerts_eq LOW_CONFIDENCE_THRESHOLD_def UNKNOWN_SOUND_THRESHOLD_def
      split: if_splits)

theorem unknown_sound_implies_low_confidence_witness:
  "UNKNOWN_SOUND_ALERT \<in> set (check_alerts ''Unknown Noise'' (1 / 4))
   \<and> LOW_CONFIDENCE_ALERT \<in> set (check_alerts ''Unknown Noise'' (1 / 4))"
proof -
  have h: "UNKNOWN_SOUND_ALERT \<in> set (check_alerts ''Unknown Noise'' (1 / 4))"
    by (simp add: check_alerts_eq UNKNOWN_SOUND_THRESHOLD_def)
  show ?thesis
    using h unknown_sound_implies_low_confidence [OF h] by simp
qed

text \<open>
  C7. The alerts of \<open>check_alerts\<close> are those of the three rules that hold, each one once,
  in the order rare species, low confidence, unknown sound: a subsequence of that list of
  three, so at most three alerts, and no rule's outcome depends on another's. The label
  \<^verbatim>\<open>Unknown Noise\<close> with score \<open>0.25\<close> gives the low-confidence and the unknown-sound
  alert, in that order.
\<close>

theorem check_alerts_fixed_order:
  "check_alerts l s =
     (if lower l \<in> lower ` set RARE_SPECIES then [RARE_SPECIES_ALERT] else []) @
     (if s < LOW_CONFIDENCE_THRESHOLD then [LOW_CONFIDENCE_ALERT] else []) @
     (if s < UNKNOWN_SOUND_THRESHOLD then [UNKNOWN_SOUND_ALERT] else [])
   \<and> subseq (check_alerts l s) [RARE_SPECIES_ALERT, LOW_CONFIDENCE_ALERT, UNKNOWN_SOUND_ALERT]
   \<and> distinct (check_alerts l s)
   \<and> length (check_alerts l s) \<le> 3
   \<and> check_alerts ''Unknown Noise'' (1 / 4) = [LOW_CONFIDENCE_ALERT, UNKNOWN_SOUND_ALERT]"
  using alerts_differ
  by (simp add: check_alerts_eq LOW_CONFIDENCE_THRESHOLD_def UNKNOWN_SOUND_THRESHOLD_def
      lower_registry lower_examples)

section \<open>The formatter: what is printed, and when it fails\<close>

lemma print_alert_lines_eq: "print_alert_lines out as = out @ map (\<lambda>a. ''  '' @ a) as"
  by (induction as arbitrary: out) simp_all

lemma print_ranked_lines_eq:
  "print_ranked_lines out ips =
     out @ map (\<lambda>(i, pred). ''  '' @ str_int i @ ''. '' @ label pred @ '' ('' @ format_pct1 (score pred) @ '')'') ips"
  by (induction out ips rule: print_ranked_lines.induct) simp_all

lemma length_enumerate_from: "length (enumerate_from i xs) = length xs"
  by (induction xs arbitrary: i) simp_all

lemma nth_enumerate_from: "k < length xs \<Longrightarrow> enumerate_from i xs ! k = (i + int k, xs ! k)"
proof (induction xs arbitrary: i k)
  case Nil
  then show ?case by simp
next
  case (Cons x xs)
  then show ?case by (cases k) simp_all
qed

lemma slice_to_pos: "1 \<le> n \<Longrightarrow> slice_to xs n = take (min (nat n) (length xs)) xs"
  by (simp add: slice_to_def min_def)

lemma print_results_Nil: "print_results [] n = (take 3 (fst (print_results ps n)), Some IndexError)"
  by (cases ps) (simp_all add: print_results_def Let_def print_alert_lines_eq print_ranked_lines_eq)

lemma print_results_error: "snd (print_results ps n) = (if ps = [] then Some IndexError else None)"
  by (cases ps) (simp_all add: print_results_def Let_def)

lemma print_results_Nil_explicit:
  "print_results [] n =
     ([[CHR 0x0A] @ replicate 50 (CHR ''=''),
      [CHR 0xD0, CHR 0xA0, CHR 0xD0, CHR 0x95, CHR 0xD0, CHR 0x97, CHR 0xD0, CHR 0xA3,
       CHR 0xD0, CHR 0x9B, CHR 0xD0, CHR 0xAC, CHR 0xD0, CHR 0xA2, CHR 0xD0, CHR 0x90,
       CHR 0xD0, CHR 0xA2, CHR 0xD0, CHR 0xAB] @ '' '' @
      [CHR 0xD0, CHR 0x9A, CHR 0xD0, CHR 0x9B, CHR 0xD0, CHR 0x90, CHR 0xD0, CHR 0xA1,
       CHR 0xD0, CHR 0xA1, CHR 0xD0, CHR 0x98, CHR 0xD0, CHR 0xA4, CHR 0xD0, CHR 0x98,
       CHR 0xD0, CHR 0x9A, CHR 0xD0, CHR 0x90, CHR 0xD0, CHR 0xA6, CHR 0xD0, CHR 0x98,
       CHR 0xD0, CHR 0x98],
      replicate 50 (CHR ''='')],
      Some IndexError)"
  by (simp add: print_results_def)

lemma classify_audio_progress:
  "fst (classify_audio fp c) =
     [[CHR 0xD0, CHR 0x9A, CHR 0xD0, CHR 0xBB, CHR 0xD0, CHR 0xB0, CHR 0xD1, CHR 0x81,
      CHR 0xD1, CHR 0x81, CHR 0xD0, CHR 0xB8, CHR 0xD1, CHR 0x84, CHR 0xD0, CHR 0xB8,
      CHR 0xD1, CHR 0x86, CHR 0xD0, CHR 0xB8, CHR 0xD1, CHR 0x80, CHR 0xD1, CHR 0x83,
      CHR 0xD1, CHR 0x8E] @ ''...'']"
  by (simp add: classify_audio_def)

lemma print_results_Nil_length: "length (fst (print_results [] n)) = 3"
  by (simp add: print_results_def)

lemma print_results_ranked:
  "drop (lines_before_ranking p) (fst (print_results (p # ps) n))
   = map (\<lambda>(i, pred). ''  '' @ str_int i @ ''. '' @ label pred @ '' ('' @ format_pct1 (score pred) @ '')'')
       (enumerate_from 1 (slice_to (p # ps) n)) @ [replicate 50 (CHR ''='')]"
  by (simp add: print_results_def Let_def print_alert_lines_eq print_ranked_lines_eq lines_before_ranking_def)

lemma print_results_length:
  "length (fst (print_results (p # ps) n)) = lines_before_ranking p + length (slice_to (p # ps) n) + 1"
  by (simp add: print_results_def Let_def print_alert_lines_eq print_ranked_lines_eq lines_before_ranking_def length_enumerate_from)

lemma print_results_top: "drop 27 (fst (print_results (p # ps) n) ! 4) = '': '' @ format_pct1 (score p)"
  by (simp add: print_results_def Let_def print_alert_lines_eq print_ranked_lines_eq nth_append)

lemma main_error: "snd (main_pipeline c fp) = (if c fp = [] then Some IndexError else None)"
proof -
  have "length (snd (classify_audio fp c)) = length (c fp)"
    by (simp add: classify_audio_def sorted_py_def)
  then have "snd (classify_audio fp c) = [] \<longleftrightarrow> c fp = []"
    by (metis length_0_conv)
  then show ?thesis
   by (simp add: main_pipeline_def split_beta Let_def print_results_error)
qed

lemma print_results_ranked_nth:
  assumes "k < length (slice_to (p # ps) n)"
  shows "fst (print_results (p # ps) n) ! (lines_before_ranking p + k) =
     ''  '' @ str_int (1 + int k) @ ''. '' @ label ((p # ps) ! k) @ '' ('' @
       format_pct1 (score ((p # ps) ! k)) @ '')''"
proof -
  let ?out = "fst (print_results (p # ps) n)"
  let ?f = "\<lambda>(i, pred). ''  '' @ str_int i @ ''. '' @ label pred @ '' ('' @ format_pct1 (score pred) @ '')''"
  have len: "lines_before_ranking p \<le> length ?out"
    by (simp add: print_results_length)
  have sl: "slice_to (p # ps) n ! k = (p # ps) ! k"
    using assms by (simp add: slice_to_def split: if_splits)
  have "?out ! (lines_before_ranking p + k) = drop (lines_before_ranking p) ?out ! k"
    using len by simp
  also have "\<dots> = (map ?f (enumerate_from 1 (slice_to (p # ps) n)) @ [replicate 50 (CHR ''='')]) ! k"
    by (simp only: print_results_ranked)
  also have "\<dots> = ?f (enumerate_from 1 (slice_to (p # ps) n) ! k)"
    using assms by (simp add: nth_append length_enumerate_from)
  also have "\<dots> = ?f (1 + int k, (p # ps) ! k)"
    using assms by (simp only: nth_enumerate_from sl)
  finally show ?thesis
    by simp
qed

lemma main_pipeline_eq:
  "main_pipeline c fp =
     (fst (classify_audio fp c) @ fst (print_results (snd (classify_audio fp c)) 3),
      snd (print_results (snd (classify_audio fp c)) 3))"
  by (simp add: main_pipeline_def split_beta)

lemma classify_audio_empty: "c fp = [] \<Longrightarrow> snd (classify_audio fp c) = []"
  by (simp add: classify_audio_def sorted_py_def)

lemma str_int_small: "str_int 1 = ''1''" "str_int 2 = ''2''" "str_int 3 = ''3''"
  by code_simp+

lemma robin_no_alerts: "check_alerts ''American Robin'' (7385903388887613 / 9007199254740992) = []"
  by (simp add: check_alerts_eq lower_registry lower_examples LOW_CONFIDENCE_THRESHOLD_def UNKNOWN_SOUND_THRESHOLD_def)

section \<open>Rounding and the percentage format\<close>

lemma pow2_powi: "pow2 e = 2 powi e"
  by (simp add: pow2_def power_int_def inverse_eq_divide power_one_over)

lemma pow2_pos: "0 < pow2 e"
  by (simp add: pow2_powi)

lemma pow2_add: "pow2 (a + b) = pow2 a * pow2 b"
  by (simp add: pow2_powi power_int_add)

lemma pow2_mono: "a \<le> b \<Longrightarrow> pow2 a \<le> pow2 b"
  by (simp add: pow2_powi power_int_increasing)

lemma round_half_even_close: "\<bar>of_int (round_half_even x) - x\<bar> \<le> 1 / 2"
proof -
  have "of_int \<lfloor>x\<rfloor> \<le> x" "x < of_int \<lfloor>x\<rfloor> + 1"
    by linarith+
  then show ?thesis
    by (simp add: round_half_even_def Let_def abs_if) linarith
qed

lemma round_half_even_nonneg: "0 \<le> x \<Longrightarrow> 0 \<le> round_half_even x"
proof -
  assume "0 \<le> x"
  then have "0 \<le> \<lfloor>x\<rfloor>" by simp
  then show ?thesis
    by (simp add: round_half_even_def Let_def)
qed

lemma floor_log2_bounds:
  assumes "0 < x"
  shows "pow2 (floor_log2 x) \<le> x \<and> x < pow2 (floor_log2 x + 1)"
proof -
  obtain a b where q: "quotient_of x = (a, b)"
    by (cases "quotient_of x")
  then have b: "0 < b" and x: "x = of_int a / of_int b"
    by (simp_all add: quotient_of_denom_pos quotient_of_div)
  with assms have a: "0 < a"
    by (simp add: zero_less_divide_iff)
  define e where "e = bitlen a - bitlen b"
  have la: "1 \<le> bitlen a" and lb: "1 \<le> bitlen b"
    using a b bitlen_eq_zero_iff [of a] bitlen_eq_zero_iff [of b] bitlen_nonneg [of a] bitlen_nonneg [of b]
    by linarith+
  have "2 ^ nat (bitlen a - 1) \<le> a" "a < 2 ^ nat (bitlen a)"
       "2 ^ nat (bitlen b - 1) \<le> b" "b < 2 ^ nat (bitlen b)"
    using bitlen_bounds [OF a] bitlen_bounds [OF b] by simp_all
  then have ra: "(2::rat) ^ nat (bitlen a - 1) \<le> of_int a" "(of_int a :: rat) < 2 ^ nat (bitlen a)"
    and rb: "(2::rat) ^ nat (bitlen b - 1) \<le> of_int b" "(of_int b :: rat) < 2 ^ nat (bitlen b)"
    by (metis of_int_le_iff of_int_less_iff of_int_numeral of_int_power)+
  have pa: "pow2 (bitlen a - 1) \<le> of_int a" "of_int a < pow2 (bitlen a)"
    and pb: "pow2 (bitlen b - 1) \<le> of_int b" "of_int b < pow2 (bitlen b)"
    using ra rb la lb by (simp_all add: pow2_def)
  have up: "x < pow2 (e + 1)"
  proof -
    have "of_int a < pow2 (e + 1) * pow2 (bitlen b - 1)"
      using pa(2) by (simp add: pow2_add [symmetric] e_def)
    also have "\<dots> \<le> pow2 (e + 1) * of_int b"
      using pb(1) pow2_pos [of "e + 1"] by simp
    finally show ?thesis
      using b by (simp add: x pos_divide_less_eq)
  qed
  have lo: "pow2 (e - 1) < x"
  proof -
    have "pow2 (e - 1) * of_int b < pow2 (e - 1) * pow2 (bitlen b)"
      using pb(2) pow2_pos [of "e - 1"] by simp
    also have "\<dots> = pow2 (bitlen a - 1)"
      by (simp add: pow2_add [symmetric] e_def)
    also have "\<dots> \<le> of_int a"
      by (rule pa(1))
    finally show ?thesis
      using b by (simp add: x pos_less_divide_eq)
  qed
  have fl: "floor_log2 x = (if pow2 e \<le> x then e else e - 1)"
    by (simp add: floor_log2_def q e_def Let_def)
  show ?thesis
  proof (cases "pow2 e \<le> x")
    case True
    with up fl show ?thesis by simp
  next
    case False
    with lo fl show ?thesis by simp
  qed
qed

lemma round_double_error:
  assumes "0 < x" and "round_double x = Some v"
  shows "\<bar>v - x\<bar> \<le> x / 2 ^ 53 + 1 / 2 ^ 1075"
proof -
  define e where "e = max (floor_log2 x - 52) (- 1074)"
  define m where "m = round_half_even (x / pow2 e)"
  have v: "v = of_int m * pow2 e"
    using assms by (simp add: round_double_def Let_def e_def m_def split: if_splits)
  have "\<bar>of_int m - x / pow2 e\<bar> \<le> 1 / 2"
    unfolding m_def by (rule round_half_even_close)
  then have "\<bar>of_int m - x / pow2 e\<bar> * pow2 e \<le> 1 / 2 * pow2 e"
    using pow2_pos [of e] by (simp only: mult_le_cancel_right_pos)
  moreover have "\<bar>of_int m - x / pow2 e\<bar> * pow2 e = \<bar>v - x\<bar>"
  proof -
    have "\<bar>of_int m - x / pow2 e\<bar> * pow2 e = \<bar>(of_int m - x / pow2 e) * pow2 e\<bar>"
      using pow2_pos [of e] by (simp add: abs_mult)
    also have "(of_int m - x / pow2 e) * pow2 e = v - x"
      using pow2_pos [of e] by (simp add: v left_diff_distrib)
    finally show ?thesis .
  qed
  ultimately have err: "\<bar>v - x\<bar> \<le> pow2 e / 2"
    by simp
  have "pow2 e / 2 \<le> x / 2 ^ 53 + 1 / 2 ^ 1075"
  proof (cases "- 1074 \<le> floor_log2 x - 52")
    case True
    then have "e = floor_log2 x + (- 52)"
      by (simp add: e_def)
    then have "pow2 e = pow2 (floor_log2 x) * pow2 (- 52)"
      by (simp only: pow2_add)
    also have "\<dots> \<le> x * pow2 (- 52)"
      using floor_log2_bounds [OF assms(1)] pow2_pos [of "- 52"] by simp
    finally have "pow2 e / 2 \<le> x / 2 ^ 53"
      by (simp add: pow2_def)
    then show ?thesis
      by (simp add: add_increasing2)
  next
    case False
    then have "e = - 1074"
      by (simp add: e_def)
    then have "pow2 e / 2 = 1 / 2 ^ 1075"
      by (simp add: pow2_def)
    then show ?thesis
      using assms(1) by simp
  qed
  with err show ?thesis
    by linarith
qed


lemma round_double_finite:
  assumes "0 < x" and "x \<le> 100"
  shows "\<exists>v. round_double x = Some v \<and> 0 \<le> v"
proof -
  define e where "e = max (floor_log2 x - 52) (- 1074)"
  define m where "m = round_half_even (x / pow2 e)"
  have "pow2 (floor_log2 x) \<le> 100"
    using floor_log2_bounds [OF assms(1)] assms(2) by linarith
  also have "(100::rat) < pow2 7"
    by (simp add: pow2_def)
  finally have lt: "pow2 (floor_log2 x) < pow2 7" .
  have "\<not> 7 \<le> floor_log2 x"
  proof
    assume "7 \<le> floor_log2 x"
    then have "pow2 7 \<le> pow2 (floor_log2 x)"
      by (rule pow2_mono)
    with lt show False
      by simp
  qed
  then have "e \<le> 0"
    by (simp add: e_def)
  then have p1: "pow2 e \<le> 1"
    using pow2_mono [of e 0] by (simp add: pow2_def)
  have m0: "0 \<le> m"
    unfolding m_def using assms(1) pow2_pos [of e] by (intro round_half_even_nonneg) simp
  have "\<bar>of_int m - x / pow2 e\<bar> \<le> 1 / 2"
    unfolding m_def by (rule round_half_even_close)
  then have "of_int m \<le> x / pow2 e + 1 / 2"
    by linarith
  then have "of_int m * pow2 e \<le> (x / pow2 e + 1 / 2) * pow2 e"
    using pow2_pos [of e] by (simp only: mult_le_cancel_right_pos)
  also have "\<dots> = x + pow2 e / 2"
    using pow2_pos [of e] by (simp add: distrib_right)
  also have "\<dots> \<le> 101"
    using p1 assms(2) by linarith
  also have "(101::rat) < 2 ^ 1024"
    by simp
  finally have small: "\<not> 2 ^ 1024 \<le> of_int m * pow2 e"
    by simp
  have "0 \<le> of_int m * pow2 e"
    using m0 pow2_pos [of e] by simp
  then show ?thesis
    using assms(1) small by (simp add: round_double_def Let_def e_def m_def)
qed

lemma format_f1_close:
  assumes "0 \<le> v"
  shows "\<exists>w f. format_f1 v = str_nat w @ ''.'' @ [digit_char f] \<and> f < 10
           \<and> \<bar>of_nat w + of_nat f / 10 - v\<bar> \<le> 1 / 20"
proof -
  define n where "n = nat (round_half_even (\<bar>v\<bar> * 10))"
  have "0 \<le> round_half_even (v * 10)"
    using assms by (intro round_half_even_nonneg) simp
  then have n: "(of_nat n :: rat) = of_int (round_half_even (v * 10))"
    using assms by (simp add: n_def)
  have "n = 10 * (n div 10) + n mod 10"
    by simp
  then have "(of_nat n :: rat) = of_nat (10 * (n div 10) + n mod 10)"
    by (rule arg_cong)
  then have "(of_nat n :: rat) = 10 * of_nat (n div 10) + of_nat (n mod 10)"
    by (simp only: of_nat_add of_nat_mult of_nat_numeral)
  then have split: "(of_nat n :: rat) / 10 = of_nat (n div 10) + of_nat (n mod 10) / 10"
    by simp
  have "\<bar>of_int (round_half_even (v * 10)) - v * 10\<bar> \<le> 1 / 2"
    by (rule round_half_even_close)
  then have "\<bar>of_nat n / 10 - v\<bar> \<le> 1 / 20"
    unfolding n [symmetric] by linarith
  then have "\<bar>of_nat (n div 10) + of_nat (n mod 10) / 10 - v\<bar> \<le> 1 / 20"
    by (simp only: split)
  moreover have "format_f1 v = str_nat (n div 10) @ ''.'' @ [digit_char (n mod 10)]"
    using assms by (simp add: format_f1_def n_def Let_def)
  moreover have "n mod 10 < 10"
    by simp
  ultimately show ?thesis
    by blast
qed

lemma format_pct1_close:
  assumes "0 \<le> s" and "s \<le> 1"
  shows "\<exists>w f. format_pct1 s = str_nat w @ ''.'' @ [digit_char f] @ ''%'' \<and> f < 10
           \<and> \<bar>of_nat w + of_nat f / 10 - 100 * s\<bar> \<le> 1 / 20 + 1 / 2 ^ 46"
proof (cases "s = 0")
  case True
  have "format_pct1 0 = str_nat 0 @ ''.'' @ [digit_char 0] @ ''%''"
    by (simp add: format_pct1_def round_double_def format_f1_def round_half_even_def)
  then show ?thesis
    using True by (intro exI [of _ 0]) simp
next
  case False
  with assms have x: "0 < s * 100" "s * 100 \<le> 100"
    by simp_all
  from round_double_finite [OF x] obtain v where v: "round_double (s * 100) = Some v" "0 \<le> v"
    by blast
  from round_double_error [OF x(1) v(1)] have "\<bar>v - s * 100\<bar> \<le> s * 100 / 2 ^ 53 + 1 / 2 ^ 1075" .
  also have "\<dots> \<le> 100 / 2 ^ 53 + 1 / 2 ^ 1075"
    using x(2) by (simp add: divide_right_mono)
  also have "\<dots> \<le> 1 / 2 ^ 46"
    by simp
  finally have e1: "\<bar>v - s * 100\<bar> \<le> 1 / 2 ^ 46" .
  from format_f1_close [OF v(2)] obtain w f where
    wf: "format_f1 v = str_nat w @ ''.'' @ [digit_char f]" "f < 10"
        "\<bar>of_nat w + of_nat f / 10 - v\<bar> \<le> 1 / 20"
    by blast
  have "\<bar>of_nat w + of_nat f / 10 - 100 * s\<bar> \<le> 1 / 20 + 1 / 2 ^ 46"
    using e1 wf(3) by linarith
  moreover have "format_pct1 s = str_nat w @ ''.'' @ [digit_char f] @ ''%''"
    by (simp add: format_pct1_def v(1) wf(1))
  ultimately show ?thesis
    using wf(2) by blast
qed

lemma format_examples:
  "format_pct1 (1 / 2) = ''50.0%''"
  "round_double (82 / 100) = Some (7385903388887613 / 9007199254740992)"
  "format_pct1 (7385903388887613 / 9007199254740992) = ''82.0%''"
  by code_simp+

section \<open>The empty prediction list\<close>

text \<open>
  C1, as the code has it. When the classifier returns no prediction, \<open>classify_audio\<close>
  raises nothing and returns the empty list; \<open>main\<close> hands it to \<open>print_results\<close>, which
  prints the three lines of its banner (a rule, the title, a rule) and then fails with
  IndexError at \<^verbatim>\<open>predictions[0]\<close>, before \<open>check_alerts\<close> is called. These three lines are
  all that \<open>print_results\<close> prints, and they are the first three lines of its output on any
  prediction list: no species line, no confidence line, no alert and no ranked line is
  printed. The output of the whole run is the progress line of \<open>classify_audio\<close> and the
  banner.
\<close>

theorem empty_predictions_fail_in_formatter:
  "classifier audio_path = [] \<Longrightarrow>
   snd (classify_audio audio_path classifier) = []
   \<and> print_results (snd (classify_audio audio_path classifier)) 3 =
       ([[CHR 0x0A] @ replicate 50 (CHR ''=''),
        [CHR 0xD0, CHR 0xA0, CHR 0xD0, CHR 0x95, CHR 0xD0, CHR 0x97, CHR 0xD0, CHR 0xA3,
         CHR 0xD0, CHR 0x9B, CHR 0xD0, CHR 0xAC, CHR 0xD0, CHR 0xA2, CHR 0xD0, CHR 0x90,
         CHR 0xD0, CHR 0xA2, CHR 0xD0, CHR 0xAB] @ '' '' @
        [CHR 0xD0, CHR 0x9A, CHR 0xD0, CHR 0x9B, CHR 0xD0, CHR 0x90, CHR 0xD0, CHR 0xA1,
         CHR 0xD0, CHR 0xA1, CHR 0xD0, CHR 0x98, CHR 0xD0, CHR 0xA4, CHR 0xD0, CHR 0x98,
         CHR 0xD0, CHR 0x9A, CHR 0xD0, CHR 0x90, CHR 0xD0, CHR 0xA6, CHR 0xD0, CHR 0x98,
         CHR 0xD0, CHR 0x98],
        replicate 50 (CHR ''='')],
        Some IndexError)
   \<and> fst (print_results (snd (classify_audio audio_path classifier)) 3)
       = take 3 (fst (print_results predictions 3))
   \<and> main_pipeline classifier audio_path =
       ([[CHR 0xD0, CHR 0x9A, CHR 0xD0, CHR 0xBB, CHR 0xD0, CHR 0xB0, CHR 0xD1, CHR 0x81,
         CHR 0xD1, CHR 0x81, CHR 0xD0, CHR 0xB8, CHR 0xD1, CHR 0x84, CHR 0xD0, CHR 0xB8,
         CHR 0xD1, CHR 0x86, CHR 0xD0, CHR 0xB8, CHR 0xD1, CHR 0x80, CHR 0xD1, CHR 0x83,
         CHR 0xD1, CHR 0x8E] @ ''...''] @
        [[CHR 0x0A] @ replicate 50 (CHR ''=''),
        [CHR 0xD0, CHR 0xA0, CHR 0xD0, CHR 0x95, CHR 0xD0, CHR 0x97, CHR 0xD0, CHR 0xA3,
         CHR 0xD0, CHR 0x9B, CHR 0xD0, CHR 0xAC, CHR 0xD0, CHR 0xA2, CHR 0xD0, CHR 0x90,
         CHR 0xD0, CHR 0xA2, CHR 0xD0, CHR 0xAB] @ '' '' @
        [CHR 0xD0, CHR 0x9A, CHR 0xD0, CHR 0x9B, CHR 0xD0, CHR 0x90, CHR 0xD0, CHR 0xA1,
         CHR 0xD0, CHR 0xA1, CHR 0xD0, CHR 0x98, CHR 0xD0, CHR 0xA4, CHR 0xD0, CHR 0x98,
         CHR 0xD0, CHR 0x9A, CHR 0xD0, CHR 0x90, CHR 0xD0, CHR 0xA6, CHR 0xD0, CHR 0x98,
         CHR 0xD0, CHR 0x98],
        replicate 50 (CHR ''='')],
        Some IndexError)"
  using print_results_Nil [of 3 predictions]
  by (simp add: main_pipeline_eq classify_audio_empty print_results_Nil_explicit
      classify_audio_progress)

text \<open>
  The same at \<open>silent_classifier\<close>: the progress line and the three banner lines are
  printed, then IndexError.
\<close>

theorem empty_predictions_fail_in_formatter_witness:
  "silent_classifier ''recording.wav'' = []
   \<and> snd (classify_audio ''recording.wav'' silent_classifier) = []
   \<and> main_pipeline silent_classifier ''recording.wav'' =
       ([[CHR 0xD0, CHR 0x9A, CHR 0xD0, CHR 0xBB, CHR 0xD0, CHR 0xB0, CHR 0xD1, CHR 0x81,
         CHR 0xD1, CHR 0x81, CHR 0xD0, CHR 0xB8, CHR 0xD1, CHR 0x84, CHR 0xD0, CHR 0xB8,
         CHR 0xD1, CHR 0x86, CHR 0xD0, CHR 0xB8, CHR 0xD1, CHR 0x80, CHR 0xD1, CHR 0x83,
         CHR 0xD1, CHR 0x8E] @ ''...''] @
        [[CHR 0x0A] @ replicate 50 (CHR ''=''),
        [CHR 0xD0, CHR 0xA0, CHR 0xD0, CHR 0x95, CHR 0xD0, CHR 0x97, CHR 0xD0, CHR 0xA3,
         CHR 0xD0, CHR 0x9B, CHR 0xD0, CHR 0xAC, CHR 0xD0, CHR 0xA2, CHR 0xD0, CHR 0x90,
         CHR 0xD0, CHR 0xA2, CHR 0xD0, CHR 0xAB] @ '' '' @
        [CHR 0xD0, CHR 0x9A, CHR 0xD0, CHR 0x9B, CHR 0xD0, CHR 0x90, CHR 0xD0, CHR 0xA1,
         CHR 0xD0, CHR 0xA1, CHR 0xD0, CHR 0x98, CHR 0xD0, CHR 0xA4, CHR 0xD0, CHR 0x98,
         CHR 0xD0, CHR 0x9A, CHR 0xD0, CHR 0x90, CHR 0xD0, CHR 0xA6, CHR 0xD0, CHR 0x98,
         CHR 0xD0, CHR 0x98],
        replicate 50 (CHR ''='')],
        Some IndexError)"
proof -
  have h: "silent_classifier ''recording.wav'' = []"
    by (simp add: silent_classifier_def)
  show ?thesis
    using h empty_predictions_fail_in_formatter [of silent_classifier "''recording.wav''", OF h]
    by simp
qed

text \<open>
  C1, as the specification states it, fails: on the empty prediction list the ranker
  returns normally, its empty result reaches \<open>print_results\<close>, and the error of the run is
  the IndexError of \<open>print_results\<close>.
\<close>

theorem ranker_accepts_empty_counterexample:
  "snd (classify_audio ''recording.wav'' silent_classifier) = []
   \<and> print_results (snd (classify_audio ''recording.wav'' silent_classifier)) 3
       = (fst (print_results [] 3), Some IndexError)
   \<and> main_pipeline silent_classifier ''recording.wav''
       = (fst (classify_audio ''recording.wav'' silent_classifier) @ fst (print_results [] 3),
          Some IndexError)"
  by (simp add: main_pipeline_eq classify_audio_empty silent_classifier_def print_results_error prod_eq_iff)

text \<open>
  C10. \<open>print_results\<close> fails, with IndexError, exactly on the empty list; on a non-empty
  list \<^verbatim>\<open>predictions[0]\<close> is in bounds and no error is raised. On the empty list it has
  printed only the three banner lines that every run starts with, and nothing of the
  prediction, the alerts or the ranking. Nothing in \<open>main\<close> checks the list first: the
  run fails exactly when the classifier returns the empty list.
\<close>

theorem print_results_needs_nonempty:
  "snd (print_results predictions top_n) = (if predictions = [] then Some IndexError else None)
   \<and> fst (print_results [] top_n) = take 3 (fst (print_results predictions top_n))
   \<and> length (fst (print_results [] top_n)) = 3
   \<and> snd (main_pipeline classifier audio_path) =
        (if classifier audio_path = [] then Some IndexError else None)"
  using print_results_error [of predictions top_n] print_results_Nil [of top_n predictions]
    print_results_Nil_length [of top_n] main_error [of classifier audio_path]
  by (simp only: fst_conv simp_thms)

section \<open>The ranked lines\<close>

text \<open>
  C9. For a non-empty prediction list and \<open>top_n\<close> at least 1, \<open>print_results\<close> raises
  nothing, and after the lines before the ranking it prints one numbered line for each of
  the first \<open>min top_n (length predictions)\<close> predictions, numbered from 1, and then the
  closing rule: a \<open>top_n\<close> beyond the length of the list is clamped to it.
\<close>

theorem print_results_clamps_top_n:
  assumes "1 \<le> top_n"
  shows "snd (print_results (p # ps) top_n) = None
   \<and> drop (lines_before_ranking p) (fst (print_results (p # ps) top_n)) =
       map (\<lambda>(i, pred). ''  '' @ str_int i @ ''. '' @ label pred @ '' ('' @
              format_pct1 (score pred) @ '')'')
         (enumerate_from 1 (take (min (nat top_n) (length (p # ps))) (p # ps)))
       @ [replicate 50 (CHR ''='')]
   \<and> length (fst (print_results (p # ps) top_n)) =
       lines_before_ranking p + min (nat top_n) (length (p # ps)) + 1"
proof -
  have "slice_to (p # ps) top_n = take (min (nat top_n) (length (p # ps))) (p # ps)"
    using assms by (rule slice_to_pos)
  then show ?thesis
    using print_results_ranked [of p ps top_n] print_results_length [of p ps top_n]
    by (simp add: print_results_error min_def)
qed

text \<open>With \<open>top_n = 3\<close> and two predictions: two ranked lines, no error.\<close>

theorem print_results_clamps_top_n_witness:
  "(1::int) \<le> 3
   \<and> snd (print_results [\<lparr>label = ''American Robin'', score = 7385903388887613 / 9007199254740992\<rparr>,
                          \<lparr>label = ''House Sparrow'', score = 1 / 2\<rparr>] 3) = None
   \<and> drop 7 (fst (print_results [\<lparr>label = ''American Robin'', score = 7385903388887613 / 9007199254740992\<rparr>,
                          \<lparr>label = ''House Sparrow'', score = 1 / 2\<rparr>] 3)) =
       [''  1. American Robin (82.0%)'', ''  2. House Sparrow (50.0%)'', replicate 50 (CHR ''='')]
   \<and> length (fst (print_results [\<lparr>label = ''American Robin'', score = 7385903388887613 / 9007199254740992\<rparr>,
                          \<lparr>label = ''House Sparrow'', score = 1 / 2\<rparr>] 3)) = 10"
  using print_results_clamps_top_n [of 3 "\<lparr>label = ''American Robin'', score = 7385903388887613 / 9007199254740992\<rparr>"
      "[\<lparr>label = ''House Sparrow'', score = 1 / 2\<rparr>]"]
  by (simp add: lines_before_ranking_def robin_no_alerts str_int_small format_examples)

section \<open>Scores as percentages\<close>

text \<open>
  C8. The confidence line of the top prediction (the fifth line printed) ends with its
  score in the format \<^verbatim>\<open>.1%\<close>, and so does the line of every ranked entry. For a score
  \<open>s\<close> of \<open>[0, 1]\<close> that format is a decimal with exactly one digit after the point and
  a percent sign, and the decimal is within \<open>0.05 + 2^-46\<close> of \<open>100 * s\<close> (half a unit of the
  last digit, and the rounding of the product in double precision). The score \<open>0.5\<close>
  renders as \<^verbatim>\<open>50.0%\<close> and the float \<^verbatim>\<open>0.82\<close> as \<^verbatim>\<open>82.0%\<close>.
\<close>

theorem print_results_percentages:
  assumes "k < length (slice_to (p # ps) top_n)"
  shows "drop 27 (fst (print_results (p # ps) top_n) ! 4) = '': '' @ format_pct1 (score p)
   \<and> fst (print_results (p # ps) top_n) ! (lines_before_ranking p + k) =
       ''  '' @ str_int (1 + int k) @ ''. '' @ label ((p # ps) ! k) @ '' ('' @
         format_pct1 (score ((p # ps) ! k)) @ '')''
   \<and> (0 \<le> s \<and> s \<le> 1 \<longrightarrow>
        (\<exists>w f. format_pct1 s = str_nat w @ ''.'' @ [digit_char f] @ ''%'' \<and> f < 10
           \<and> \<bar>of_nat w + of_nat f / 10 - 100 * s\<bar> \<le> 1 / 20 + 1 / 2 ^ 46))
   \<and> format_pct1 (1 / 2) = ''50.0%''
   \<and> round_double (82 / 100) = Some (7385903388887613 / 9007199254740992)
   \<and> format_pct1 (7385903388887613 / 9007199254740992) = ''82.0%''"
  using print_results_top [of p ps top_n] print_results_ranked_nth [OF assms]
    format_pct1_close [of s] format_examples
  by (intro conjI impI) simp_all

text \<open>
  In the report of American Robin (0.82) and House Sparrow (0.5): the top line ends with
  \<^verbatim>\<open>82.0%\<close>, the second ranked line shows \<^verbatim>\<open>50.0%\<close>.
\<close>

theorem print_results_percentages_witness:
  "(1::nat) < length (slice_to [\<lparr>label = ''American Robin'', score = 7385903388887613 / 9007199254740992\<rparr>,
                          \<lparr>label = ''House Sparrow'', score = 1 / 2\<rparr>] 3)
   \<and> (0::rat) \<le> 1 / 2 \<and> (1 / 2 :: rat) \<le> 1
   \<and> drop 27 (fst (print_results [\<lparr>label = ''American Robin'', score = 7385903388887613 / 9007199254740992\<rparr>,
                          \<lparr>label = ''House Sparrow'', score = 1 / 2\<rparr>] 3) ! 4) = '': 82.0%''
   \<and> fst (print_results [\<lparr>label = ''American Robin'', score = 7385903388887613 / 9007199254740992\<rparr>,
                          \<lparr>label = ''House Sparrow'', score = 1 / 2\<rparr>] 3) ! 8
        = ''  2. House Sparrow (50.0%)''
   \<and> (\<exists>w f. ''50.0%'' = str_nat w @ ''.'' @ [digit_char f] @ ''%'' \<and> f < 10
           \<and> \<bar>of_nat w + of_nat f / 10 - (50::rat)\<bar> \<le> 1 / 20 + 1 / 2 ^ 46)"
proof -
  have h: "(1::nat) < length (slice_to [\<lparr>label = ''American Robin'', score = 7385903388887613 / 9007199254740992\<rparr>,
                          \<lparr>label = ''House Sparrow'', score = 1 / 2\<rparr>] 3)"
    by (simp add: slice_to_def)
  show ?thesis
    using h print_results_percentages [OF h, of "1 / 2"]
    by (simp add: lines_before_ranking_def robin_no_alerts str_int_small format_examples)
qed

end
